theory Spec2Isabelle
  imports Main "HOL-Library.Char_ord" "HOL-Library.List_Lexorder" "HOL-Library.AList"
begin

section \<open>Python string and list primitives used by the scripts\<close>

text \<open>
  Python strings are modelled as \<^typ>\<open>string\<close>. \<open>s.startswith(p)\<close> compares the first
  \<open>len(p)\<close> characters of \<open>s\<close> with \<open>p\<close>; \<open>c in s\<close> for a one-character \<open>c\<close> is
  membership in the characters of \<open>s\<close>.
\<close>

definition startswith :: "string \<Rightarrow> string \<Rightarrow> bool" where
  "startswith s p = (take (length p) s = p)"

text \<open>
  \<open>list(dict.fromkeys(items))\<close>: the keys are inserted in order and a key that is
  already in the dictionary keeps its first position.
\<close>

fun fromkeys :: "'a list \<Rightarrow> 'a list \<Rightarrow> 'a list" where
  "fromkeys seen [] = seen"
| "fromkeys seen (x # xs) = (if x \<in> set seen then fromkeys seen xs else fromkeys (seen @ [x]) xs)"

definition dedupe_strings :: "'a list \<Rightarrow> 'a list" where
  "dedupe_strings items = fromkeys [] items"


text \<open>
  \<open>sep.join(items)\<close>.
\<close>

fun join :: "string \<Rightarrow> string list \<Rightarrow> string" where
  "join sep [] = []"
| "join sep [x] = x"
| "join sep (x # y # ys) = x @ sep @ join sep (y # ys)"

text \<open>
  \<open>s.strip()\<close> cuts the whitespace at both ends. Among the characters below 256 the ones
  Python counts as whitespace are \<open>\t \n \v \f \r\<close>, the separators \<open>0x1c\<close> to \<open>0x1f\<close>,
  the space, \<open>0x85\<close> and \<open>0xa0\<close>.
\<close>

definition isspace :: "char \<Rightarrow> bool" where
  "isspace c = (c \<in> set [CHR 0x09, CHR 0x0A, CHR 0x0B, CHR 0x0C, CHR 0x0D,
                           CHR 0x1C, CHR 0x1D, CHR 0x1E, CHR 0x1F, CHR 0x20, CHR 0x85, CHR 0xA0])"

definition strip :: "string \<Rightarrow> string" where
  "strip s = rev (dropWhile isspace (rev (dropWhile isspace s)))"

section \<open>Python values\<close>

text \<open>
  The values a parsed TOML document holds, as far as the scripts look at them: strings,
  integers, lists and tables. A string is a list of characters below 256. TOML booleans,
  floats and dates are left out.
\<close>

datatype pyval = PStr string | PInt int | PList "pyval list" | PDict "(pyval \<times> pyval) list"

fun is_str :: "pyval \<Rightarrow> bool" where
  "is_str (PStr s) = True"
| "is_str v = False"

text \<open>Lists and dictionaries are unhashable: using one as a set or dictionary key raises.\<close>

fun hashable :: "pyval \<Rightarrow> bool" where
  "hashable (PList xs) = False"
| "hashable (PDict kvs) = False"
| "hashable v = True"

text \<open>\<open>bool(v)\<close>.\<close>

fun truthy :: "pyval \<Rightarrow> bool" where
  "truthy (PStr s) = (s \<noteq> [])"
| "truthy (PInt i) = (i \<noteq> 0)"
| "truthy (PList xs) = (xs \<noteq> [])"
| "truthy (PDict kvs) = (kvs \<noteq> [])"

text \<open>
  What \<open>list.extend(v)\<close> appends: the items of a list, the one-character strings of a
  string, the keys of a dictionary; an integer is not iterable (\<open>None\<close> here).
\<close>

fun py_iter :: "pyval \<Rightarrow> pyval list option" where
  "py_iter (PStr s) = Some (map (\<lambda>c. PStr [c]) s)"
| "py_iter (PInt i) = None"
| "py_iter (PList xs) = Some xs"
| "py_iter (PDict kvs) = Some (map fst kvs)"

subsection \<open>str() and repr()\<close>

function digits :: "nat \<Rightarrow> string" where
  "digits n = (if n < 10 then [''0123456789'' ! n]
               else digits (n div 10) @ [''0123456789'' ! (n mod 10)])"
  by pat_completeness auto
termination
  by (relation "measure id") auto

definition int_str :: "int \<Rightarrow> string" where
  "int_str i = (if i < 0 then ''-'' @ digits (nat (- i)) else digits (nat i))"

definition hexdigit :: "nat \<Rightarrow> char" where
  "hexdigit n = ''0123456789abcdef'' ! n"

text \<open>
  \<open>repr\<close> of a string: double quotes when the string has a single quote and no double
  quote, single quotes otherwise; the quote and the backslash are escaped with a
  backslash, tab, newline and carriage return are written \<open>\t \n \r\<close>, and every other
  unprintable character as \<open>\xhh\<close> (the control characters, \<open>0x7f\<close> to \<open>0xa0\<close> and the
  soft hyphen \<open>0xad\<close>).
\<close>

definition printable :: "char \<Rightarrow> bool" where
  "printable c = (let n = (of_char c :: nat) in (32 \<le> n \<and> n < 127) \<or> (161 \<le> n \<and> n \<noteq> 173))"

definition repr_char :: "char \<Rightarrow> char \<Rightarrow> string" where
  "repr_char quote c =
     (if c = quote \<or> c = CHR 0x5C then [CHR 0x5C, c]
      else if c = CHR 0x09 then [CHR 0x5C, CHR ''t'']
      else if c = CHR 0x0A then [CHR 0x5C, CHR ''n'']
      else if c = CHR 0x0D then [CHR 0x5C, CHR ''r'']
      else if printable c then [c]
      else [CHR 0x5C, CHR ''x'', hexdigit (of_char c div 16), hexdigit (of_char c mod 16)])"

definition repr_str :: "string \<Rightarrow> string" where
  "repr_str s =
     (let quote = (if CHR 0x27 \<in> set s \<and> CHR 0x22 \<notin> set s then CHR 0x22 else CHR 0x27)
      in [quote] @ concat (map (repr_char quote) s) @ [quote])"

fun py_repr :: "pyval \<Rightarrow> string" where
  "py_repr (PStr s) = repr_str s"
| "py_repr (PInt i) = int_str i"
| "py_repr (PList xs) = ''['' @ join '', '' (map py_repr xs) @ '']''"
| "py_repr (PDict kvs) =
     ''{'' @ join '', '' (map (\<lambda>(k, v). py_repr k @ '': '' @ py_repr v) kvs) @ ''}''"

text \<open>\<open>str(v)\<close>, which is what an f-string field \<open>{v}\<close> inserts.\<close>

fun py_str :: "pyval \<Rightarrow> string" where
  "py_str (PStr s) = s"
| "py_str v = py_repr v"

section \<open>common.py\<close>

text \<open>
  A language entry is a dictionary with string keys; the scripts only ever look keys up
  and assign them, so it is a map from key to value. The configuration is a dictionary
  from language id to entry, kept in insertion order as an association list with distinct
  keys: \<open>config[k]\<close> is \<^const>\<open>map_of\<close>, \<open>config[k] = v\<close> is \<^const>\<open>AList.update\<close>.
\<close>

type_synonym LanguageConfig = "string \<rightharpoonup> pyval"
type_synonym ConfigDict = "(string \<times> LanguageConfig) list"

definition REQUIRED_LANG_FIELDS :: "string list" where
  "REQUIRED_LANG_FIELDS = [''name'', ''zed_language'']"

definition DETECTION_FIELDS :: "string list" where
  "DETECTION_FIELDS = [''extensions'', ''suffixes'', ''filenames'']"

text \<open>\<open>class Source(StrEnum)\<close> with \<open>auto()\<close> values: the lower-cased member names.\<close>

datatype Source = NATIVE | EXTENSION | EXTRA

fun source_value :: "Source \<Rightarrow> string" where
  "source_value NATIVE = ''native''"
| "source_value EXTENSION = ''extension''"
| "source_value EXTRA = ''extra''"

text \<open>
  What a call can raise. \<open>fail\<close> and \<open>fail_many\<close> print their messages to the standard
  error stream, each after \<open>ERROR: \<close>, and raise \<open>SystemExit(1)\<close>: the error carries the
  lines printed.
\<close>

datatype error = SystemExit "string list" | KeyError string | TypeError | TOMLDecodeError

definition fail :: "string \<Rightarrow> error + 'a" where
  "fail message = Inl (SystemExit [''ERROR: '' @ message])"

definition fail_many :: "string list \<Rightarrow> error + 'a" where
  "fail_many errors = Inl (SystemExit (map (\<lambda>err. ''ERROR: '' @ err) errors))"

subsection \<open>validate\_config\_entry and validate\_config\<close>

definition detection_field_errors :: "string \<Rightarrow> LanguageConfig \<Rightarrow> string \<Rightarrow> string list" where
  "detection_field_errors lang_id info field =
     (case info field of
        None \<Rightarrow> []
      | Some (PList list_value) \<Rightarrow>
          (if list_ex (\<lambda>item. \<not> is_str item) list_value
           then [''['' @ lang_id @ ''] '' @ [CHR 0x27] @ field @ [CHR 0x27] @ '' must contain only strings'']
           else [])
      | Some _ \<Rightarrow> [''['' @ lang_id @ ''] '' @ [CHR 0x27] @ field @ [CHR 0x27] @ '' must be a list''])"

definition source_errors :: "string \<Rightarrow> LanguageConfig \<Rightarrow> string list" where
  "source_errors lang_id info =
     (case info ''source'' of
        None \<Rightarrow> []
      | Some v \<Rightarrow>
          (let valid_sources = map source_value [NATIVE, EXTENSION, EXTRA] in
           if v \<notin> set (map PStr valid_sources)
           then [''['' @ lang_id @ ''] invalid source '' @ [CHR 0x27] @ py_str v @ [CHR 0x27]
                   @ '', must be one of: '' @ py_repr (PList (map PStr valid_sources))]
           else []))"

definition validate_config_entry :: "string \<Rightarrow> LanguageConfig \<Rightarrow> string list" where
  "validate_config_entry lang_id info =
     map (\<lambda>field. ''['' @ lang_id @ ''] missing required field: '' @ field)
         (filter (\<lambda>field. info field = None) REQUIRED_LANG_FIELDS)
     @ (if \<not> list_ex (\<lambda>field. info field \<noteq> None) DETECTION_FIELDS
        then [''['' @ lang_id @ ''] missing detection fields: one of ''
                @ py_repr (PList (map PStr DETECTION_FIELDS)) @ '' is required'']
        else [])
     @ concat (map (detection_field_errors lang_id info) DETECTION_FIELDS)
     @ source_errors lang_id info"

definition validate_config :: "ConfigDict \<Rightarrow> error + unit" where
  "validate_config config =
     (if config = [] then fail ''Config is empty''
      else (let errors = concat (map (\<lambda>(lang_id, info). validate_config_entry lang_id info) config)
            in if errors \<noteq> [] then fail_many errors else Inr ()))"

subsection \<open>load\_config, normalize\_config and load\_and\_validate\_config\<close>

text \<open>
  The file system and \<open>tomllib\<close> are outside the scripts. The state of the file at
  \<open>CONFIG_PATH\<close> is given: it does not exist, \<open>tomllib.load\<close> rejects it, or
  \<open>tomllib.load\<close> returns a value. The path itself, which the messages quote, is a
  parameter.
\<close>

datatype config_file = Missing | Undecodable | Parsed pyval

definition entry_of :: "(pyval \<times> pyval) list \<Rightarrow> LanguageConfig" where
  "entry_of kvs = (\<lambda>key. map_of kvs (PStr key))"

fun normalize_loop :: "string \<Rightarrow> (pyval \<times> pyval) list \<Rightarrow> ConfigDict \<Rightarrow> error + ConfigDict" where
  "normalize_loop CONFIG_PATH [] normalized = Inr normalized"
| "normalize_loop CONFIG_PATH ((raw_lang_id, raw_info) # rest) normalized =
     (case raw_lang_id of
        PStr lang_id \<Rightarrow>
          (case raw_info of
             PDict kvs \<Rightarrow>
               normalize_loop CONFIG_PATH rest (AList.update lang_id (entry_of kvs) normalized)
           | _ \<Rightarrow> fail (''Invalid config entry for ['' @ lang_id @ ''] in '' @ CONFIG_PATH
                          @ '': expected table''))
      | _ \<Rightarrow> fail (''Invalid config key type in '' @ CONFIG_PATH @ '': expected string keys''))"

definition normalize_config :: "string \<Rightarrow> pyval \<Rightarrow> error + ConfigDict" where
  "normalize_config CONFIG_PATH raw =
     (case raw of
        PDict raw_dict \<Rightarrow> normalize_loop CONFIG_PATH raw_dict []
      | _ \<Rightarrow> fail (''Invalid config format in '' @ CONFIG_PATH @ '': expected TOML table''))"

definition load_config :: "string \<Rightarrow> config_file \<Rightarrow> error + ConfigDict" where
  "load_config CONFIG_PATH file =
     (case file of
        Missing \<Rightarrow> Inr []
      | Undecodable \<Rightarrow> Inl TOMLDecodeError
      | Parsed raw \<Rightarrow> normalize_config CONFIG_PATH raw)"

definition load_and_validate_config :: "string \<Rightarrow> config_file \<Rightarrow> error + ConfigDict" where
  "load_and_validate_config CONFIG_PATH file =
     (if file = Missing then fail (''Config file not found: '' @ CONFIG_PATH)
      else (case load_config CONFIG_PATH file of
              Inl e \<Rightarrow> Inl e
            | Inr config \<Rightarrow>
                (case validate_config config of Inl e \<Rightarrow> Inl e | Inr u \<Rightarrow> Inr config)))"

subsection \<open>save\_config\<close>

text \<open>
  The result is the text handed to \<open>CONFIG_PATH.write_text\<close>. \<open>info["name"]\<close> and
  \<open>info["zed_language"]\<close> raise \<open>KeyError\<close> on an entry without the key, before anything
  is written.
\<close>

definition field_line :: "string \<Rightarrow> pyval list \<Rightarrow> string" where
  \<open>field_line field typed_values =
     field @ '' = ['' @ join '', '' (map (\<lambda>e. ''"'' @ py_str e @ ''"'') typed_values) @ '']''\<close>

definition detection_lines :: "LanguageConfig \<Rightarrow> string list" where
  "detection_lines info =
     (let written = concat (map (\<lambda>field. case info field of
                                             Some (PList values) \<Rightarrow> [field_line field values]
                                           | _ \<Rightarrow> []) DETECTION_FIELDS)
      in if written = [] then [''extensions = []''] else written)"

definition source_line :: "LanguageConfig \<Rightarrow> string" where
  \<open>source_line info =
     ''source = "''
     @ py_str (case info ''source'' of None \<Rightarrow> PStr (source_value EXTRA) | Some v \<Rightarrow> v)
     @ ''"''\<close>

definition entry_lines :: "string \<Rightarrow> LanguageConfig \<Rightarrow> error + string list" where
  \<open>entry_lines lang_id info =
     (case info ''name'' of
        None \<Rightarrow> Inl (KeyError ''name'')
      | Some name \<Rightarrow>
          (case info ''zed_language'' of
             None \<Rightarrow> Inl (KeyError ''zed_language'')
           | Some zed_language \<Rightarrow>
               Inr ([''['' @ lang_id @ '']'',
                     ''name = "'' @ py_str name @ ''"'',
                     ''zed_language = "'' @ py_str zed_language @ ''"'']
                    @ detection_lines info
                    @ [source_line info, []])))\<close>

fun save_loop :: "ConfigDict \<Rightarrow> string list \<Rightarrow> string list \<Rightarrow> error + string list" where
  "save_loop config [] lines = Inr lines"
| "save_loop config (lang_id # rest) lines =
     (case map_of config lang_id of
        None \<Rightarrow> Inl (KeyError lang_id)
      | Some info \<Rightarrow>
          (case entry_lines lang_id info of
             Inl e \<Rightarrow> Inl e
           | Inr ls \<Rightarrow> save_loop config rest (lines @ ls)))"

definition header_lines :: "string list" where
  "header_lines =
     [''# Languages configuration for jinja-universal'',
      ''# source: native (Zed built-in), extension (Zed extension), extra (manual)'',
      []]"

definition save_lines :: "ConfigDict \<Rightarrow> error + string list" where
  "save_lines config = save_loop config (sort (map fst config)) header_lines"

definition save_config :: "ConfigDict \<Rightarrow> error + string" where
  "save_config config =
     (case save_lines config of Inl e \<Rightarrow> Inl e | Inr lines \<Rightarrow> Inr (join [CHR 0x0A] lines))"

section \<open>sync\_zed\_languages.py\<close>

subsection \<open>extract\_extensions\<close>

text \<open>
  One iteration of the loop of \<open>extract_extensions\<close>: the result is the list of
  extensions after the iteration. The two \<open>startswith\<close> tests on \<open>"."\<close> and \<open>"*"\<close>
  rebind \<open>suffix\<close>; the inner test on \<open>"."\<close> is only made after a leading \<open>"*"\<close> was cut.
\<close>

definition strip_markers :: "string \<Rightarrow> string" where
  "strip_markers suffix =
     (let s1 = (if startswith suffix ''.'' then drop 1 suffix else suffix) in
      if startswith s1 ''*'' then
        (let s2 = drop 1 s1 in if startswith s2 ''.'' then drop 1 s2 else s2)
      else s1)"

fun extract_loop :: "string list \<Rightarrow> string list \<Rightarrow> string list" where
  "extract_loop extensions [] = extensions"
| "extract_loop extensions (suffix # rest) =
     (let s = strip_markers suffix in
      if CHR ''*'' \<in> set s \<or> CHR ''/'' \<in> set s then extract_loop extensions rest
      else if s \<noteq> [] then extract_loop (extensions @ [s]) rest
      else extract_loop extensions rest)"

definition extract_extensions :: "string list \<Rightarrow> string list" where
  "extract_extensions path_suffixes = dedupe_strings (extract_loop [] path_suffixes)"

subsection \<open>split\_path\_suffixes\<close>

text \<open>
  The loop of \<open>split_path_suffixes\<close> appends each trimmed, non-empty value to one of three
  lists; each list is deduplicated at the end.
\<close>

fun split_loop ::
  "string list \<Rightarrow> string list \<Rightarrow> string list \<Rightarrow> string list
     \<Rightarrow> string list \<times> string list \<times> string list" where
  "split_loop [] suffixes full_filenames other_patterns =
     (suffixes, full_filenames, other_patterns)"
| "split_loop (raw_value # rest) suffixes full_filenames other_patterns =
     (let v = strip raw_value in
      if v = [] then split_loop rest suffixes full_filenames other_patterns
      else if CHR ''/'' \<in> set v then
        split_loop rest suffixes full_filenames (other_patterns @ [v])
      else if CHR ''*'' \<in> set v then
        (if startswith v ''*.'' \<and> count_list v CHR ''*'' = 1
         then split_loop rest (suffixes @ [v]) full_filenames other_patterns
         else split_loop rest suffixes full_filenames (other_patterns @ [v]))
      else if startswith v ''.'' then
        split_loop rest (suffixes @ [v]) full_filenames other_patterns
      else split_loop rest suffixes (full_filenames @ [v]) other_patterns)"

definition split_path_suffixes ::
  "string list \<Rightarrow> string list \<times> string list \<times> string list" where
  "split_path_suffixes path_suffixes =
     (case split_loop path_suffixes [] [] [] of
        (suffixes, full_filenames, other_patterns) \<Rightarrow>
          (dedupe_strings suffixes, dedupe_strings full_filenames, dedupe_strings other_patterns))"

subsection \<open>update\_sources\<close>

text \<open>
  \<open>info.get("zed_language", lang_id)\<close>, and \<open>zed_lang in ids\<close> for a set of strings: the
  test hashes \<open>zed_lang\<close>, so it raises \<open>TypeError\<close> on a list or a table; a hashable value
  that is not a string equals no member.
\<close>

definition zed_lang_of :: "string \<Rightarrow> LanguageConfig \<Rightarrow> pyval" where
  "zed_lang_of lang_id info =
     (case info ''zed_language'' of None \<Rightarrow> PStr lang_id | Some v \<Rightarrow> v)"

fun in_ids :: "pyval \<Rightarrow> string set \<Rightarrow> error + bool" where
  "in_ids (PStr s) ids = Inr (s \<in> ids)"
| "in_ids (PInt i) ids = Inr False"
| "in_ids v ids = Inl TypeError"

definition new_source :: "pyval \<Rightarrow> string set \<Rightarrow> string set \<Rightarrow> error + Source" where
  "new_source zed_lang native_ids ext_ids =
     (case in_ids zed_lang native_ids of
        Inl e \<Rightarrow> Inl e
      | Inr in_native \<Rightarrow>
          if in_native then Inr NATIVE
          else (case in_ids zed_lang ext_ids of
                  Inl e \<Rightarrow> Inl e
                | Inr in_ext \<Rightarrow> if in_ext then Inr EXTENSION else Inr EXTRA))"

text \<open>
  The loop mutates the entries in place and counts the changes; an exception leaves the
  loop. The model returns the configuration after the loop and the count.
\<close>

fun update_sources :: "ConfigDict \<Rightarrow> string set \<Rightarrow> string set \<Rightarrow> error + (ConfigDict \<times> nat)" where
  "update_sources [] native_ids ext_ids = Inr ([], 0)"
| "update_sources ((lang_id, info) # rest) native_ids ext_ids =
     (case new_source (zed_lang_of lang_id info) native_ids ext_ids of
        Inl e \<Rightarrow> Inl e
      | Inr src \<Rightarrow>
          (case update_sources rest native_ids ext_ids of
             Inl e \<Rightarrow> Inl e
           | Inr (rest', updated) \<Rightarrow>
               if info ''source'' \<noteq> Some (PStr (source_value src))
               then Inr ((lang_id, info(''source'' \<mapsto> PStr (source_value src))) # rest', updated + 1)
               else Inr ((lang_id, info) # rest', updated)))"

subsection \<open>get\_config\_detection\_tokens and backfill\_missing\_detection\_tokens\<close>

text \<open>The dataclass \<open>LanguageInfo\<close>; its field \<open>id\<close> is written \<open>id'\<close> here.\<close>

record LanguageInfo =
  id' :: string
  name :: string
  zed_language :: string
  extensions :: "string list"
  source :: Source
  syntax_signature :: string






section \<open>generate.py\<close>

text \<open>
  \<open>get_detection_tokens\<close>: \<open>collected.extend\<close> raises \<open>TypeError\<close> on a value that is not
  iterable, and \<open>dict.fromkeys\<close> on an unhashable item.
\<close>

definition extend_with :: "pyval option \<Rightarrow> pyval list \<Rightarrow> error + pyval list" where
  "extend_with field collected =
     (case field of
        None \<Rightarrow> Inr collected
      | Some v \<Rightarrow> (case py_iter v of None \<Rightarrow> Inl TypeError | Some items \<Rightarrow> Inr (collected @ items)))"

definition get_detection_tokens :: "LanguageConfig \<Rightarrow> error + pyval" where
  "get_detection_tokens info =
     (if info ''suffixes'' \<noteq> None \<or> info ''filenames'' \<noteq> None then
        (case extend_with (info ''suffixes'') [] of
           Inl e \<Rightarrow> Inl e
         | Inr c1 \<Rightarrow>
             (case extend_with (info ''filenames'') c1 of
                Inl e \<Rightarrow> Inl e
              | Inr collected \<Rightarrow>
                  if list_all hashable collected then Inr (PList (fromkeys [] collected))
                  else Inl TypeError))
      else (case info ''extensions'' of None \<Rightarrow> Inr (PList []) | Some exts \<Rightarrow> Inr exts))"

text \<open>
  \<open>normalize_source\<close>: a member of \<open>Source\<close> is a string equal to its value, so the branch
  that unwraps it returns the same string.
\<close>

definition normalize_source :: "LanguageConfig \<Rightarrow> pyval" where
  "normalize_source info =
     (case info ''source'' of None \<Rightarrow> PStr (source_value EXTRA) | Some v \<Rightarrow> v)"

definition has_detection_tokens :: "LanguageConfig \<Rightarrow> error + bool" where
  "has_detection_tokens info =
     (case get_detection_tokens info of Inl e \<Rightarrow> Inl e | Inr tokens \<Rightarrow> Inr (truthy tokens))"

text \<open>
  The namespace \<open>GenerateArgs\<close>; its attributes \<open>sort\<close> and \<open>all\<close> are written \<open>sort_flag\<close>
  and \<open>all_flag\<close> here. \<open>should_include\<close> first tests the detection tokens and then the
  filters; \<open>filter_by_source\<close> is the second part, from \<open>if args.all\<close> on.
\<close>

record GenerateArgs =
  sort_flag :: bool
  all_flag :: bool
  native :: bool
  ext :: bool

definition EXCLUDE_LANGUAGES_WITHOUT_DETECTION :: bool where
  "EXCLUDE_LANGUAGES_WITHOUT_DETECTION = True"

definition filter_by_source :: "LanguageConfig \<Rightarrow> GenerateArgs \<Rightarrow> bool" where
  "filter_by_source info args =
     (if all_flag args then True
      else (let src = normalize_source info in
            if native args \<and> src = PStr (source_value NATIVE) then True
            else if ext args \<and> src = PStr (source_value EXTENSION) then True
            else if \<not> native args \<and> \<not> ext args
              then src \<in> set [PStr (source_value NATIVE), PStr (source_value EXTENSION)]
            else False))"

definition should_include :: "LanguageConfig \<Rightarrow> GenerateArgs \<Rightarrow> error + bool" where
  "should_include info args =
     (if EXCLUDE_LANGUAGES_WITHOUT_DETECTION then
        (case has_detection_tokens info of
           Inl e \<Rightarrow> Inl e
         | Inr has \<Rightarrow> if \<not> has then Inr False else Inr (filter_by_source info args))
      else Inr (filter_by_source info args))"

section \<open>Notions of the specification\<close>

text \<open>
  "Duplicates removed, keeping the first occurrence": the head stays and every later copy
  of it is removed from the rest.
\<close>

function first_occurrences :: "'a list \<Rightarrow> 'a list" where
  "first_occurrences [] = []"
| "first_occurrences (x # xs) = x # first_occurrences (removeAll x xs)"
  by pat_completeness auto
termination
  by (relation "measure length") (auto simp: length_removeAll_less_eq less_Suc_eq_le)

text \<open>
  The list a detection field stands for: the empty list when the field is absent, its
  items when it is a list; a value that is not a list stands for none.
\<close>

definition list_field :: "pyval option \<Rightarrow> pyval list option" where
  "list_field field =
     (case field of None \<Rightarrow> Some [] | Some (PList xs) \<Rightarrow> Some xs | Some _ \<Rightarrow> None)"

section \<open>Example data\<close>






section \<open>Properties\<close>

lemma fromkeys_set: "set (fromkeys seen xs) = set seen \<union> set xs"
  by (induction xs arbitrary: seen) auto

lemma fromkeys_distinct: "distinct seen \<Longrightarrow> distinct (fromkeys seen xs)"
  by (induction xs arbitrary: seen) auto

lemma fromkeys_first_occurrences_gen:
  "fromkeys seen xs = seen @ first_occurrences (filter (\<lambda>x. x \<notin> set seen) xs)"
proof (induction xs arbitrary: seen)
  case Nil
  then show ?case by simp
next
  case (Cons x xs)
  show ?case
  proof (cases "x \<in> set seen")
    case True
    then show ?thesis using Cons.IH [of seen] by simp
  next
    case False
    have "removeAll x (filter (\<lambda>y. y \<notin> set seen) xs) = filter (\<lambda>y. y \<notin> set (seen @ [x])) xs"
      by (induction xs) auto
    then show ?thesis using False Cons.IH [of "seen @ [x]"] by simp
  qed
qed

lemma fromkeys_first_occurrences: "fromkeys [] xs = first_occurrences xs"
  by (simp add: fromkeys_first_occurrences_gen)

lemma dedupe_strings_distinct: "distinct (dedupe_strings xs)"
  by (simp add: dedupe_strings_def fromkeys_distinct)

lemma dedupe_strings_set: "set (dedupe_strings xs) = set xs"
  by (simp add: dedupe_strings_def fromkeys_set)

subsection \<open>validate\_config\_entry\<close>


subsection \<open>validate\_config and the empty configuration\<close>

text \<open>
  C10. \<open>validate_config\<close> rejects the empty configuration: it prints
  \<open>ERROR: Config is empty\<close> and exits. \<open>load_config\<close> returns the empty configuration when
  the file does not exist. \<open>load_and_validate_config\<close> therefore never returns an empty
  configuration, whatever the file holds; on a file that parses to an empty table it exits
  with the same message.
\<close>

theorem validate_config_rejects_empty:
  "validate_config [] = Inl (SystemExit [''ERROR: Config is empty''])
   \<and> load_config CONFIG_PATH Missing = Inr []
   \<and> load_and_validate_config CONFIG_PATH (Parsed (PDict []))
       = Inl (SystemExit [''ERROR: Config is empty''])
   \<and> load_and_validate_config CONFIG_PATH file \<noteq> Inr []"
  by (auto simp: validate_config_def load_config_def load_and_validate_config_def fail_def
      normalize_config_def split: sum.splits config_file.splits)

subsection \<open>should\_include with both filters\<close>

text \<open>
  C1, as stated: with \<open>--native\<close> and \<open>--ext\<close> both set and \<open>--all\<close> unset,
  \<open>should_include\<close> returns \<open>False\<close> for every entry. It does not: an entry whose source is
  \<open>native\<close> and which has a detection token is included, by the first of the two filter
  tests.
\<close>

theorem should_include_native_and_ext_counterexample:
  "should_include
     [''name'' \<mapsto> PStr ''N'', ''zed_language'' \<mapsto> PStr ''n'',
      ''extensions'' \<mapsto> PList [PStr ''n''], ''source'' \<mapsto> PStr ''native'']
     \<lparr>sort_flag = False, all_flag = False, native = True, ext = True\<rparr> = Inr True"
  by (simp add: should_include_def EXCLUDE_LANGUAGES_WITHOUT_DETECTION_def has_detection_tokens_def
      get_detection_tokens_def filter_by_source_def normalize_source_def)

text \<open>
  C1, amended: with \<open>--native\<close> and \<open>--ext\<close> both set and \<open>--all\<close> unset, \<open>should_include\<close>
  returns \<open>True\<close> exactly for the entries that have detection tokens and whose source is
  \<open>native\<close> or \<open>extension\<close>; every other entry, in particular every entry whose source is
  \<open>extra\<close> or absent, is excluded. (Where deriving the tokens raises, so does
  \<open>should_include\<close>.)
\<close>

theorem should_include_native_and_ext:
  assumes "native args" and "ext args" and "\<not> all_flag args"
  shows "should_include info args =
           (case get_detection_tokens info of
              Inl e \<Rightarrow> Inl e
            | Inr tokens \<Rightarrow>
                Inr (truthy tokens \<and> (normalize_source info = PStr ''native''
                                       \<or> normalize_source info = PStr ''extension'')))"
  using assms
  by (auto simp: should_include_def EXCLUDE_LANGUAGES_WITHOUT_DETECTION_def has_detection_tokens_def
      filter_by_source_def Let_def split: sum.splits)

theorem should_include_native_and_ext_witness:
  "native \<lparr>sort_flag = False, all_flag = False, native = True, ext = True\<rparr>
   \<and> ext \<lparr>sort_flag = False, all_flag = False, native = True, ext = True\<rparr>
   \<and> \<not> all_flag \<lparr>sort_flag = False, all_flag = False, native = True, ext = True\<rparr>
   \<and> should_include
        [''name'' \<mapsto> PStr ''E'', ''zed_language'' \<mapsto> PStr ''e'',
         ''extensions'' \<mapsto> PList [PStr ''e''], ''source'' \<mapsto> PStr ''extension'']
        \<lparr>sort_flag = False, all_flag = False, native = True, ext = True\<rparr> = Inr True
   \<and> should_include
        [''name'' \<mapsto> PStr ''X'', ''zed_language'' \<mapsto> PStr ''x'',
         ''extensions'' \<mapsto> PList [PStr ''x'']]
        \<lparr>sort_flag = False, all_flag = False, native = True, ext = True\<rparr> = Inr False"
  using
    should_include_native_and_ext
      [of "\<lparr>sort_flag = False, all_flag = False, native = True, ext = True\<rparr>"
          "[''name'' \<mapsto> PStr ''E'', ''zed_language'' \<mapsto> PStr ''e'',
            ''extensions'' \<mapsto> PList [PStr ''e''], ''source'' \<mapsto> PStr ''extension'']"]
    should_include_native_and_ext
      [of "\<lparr>sort_flag = False, all_flag = False, native = True, ext = True\<rparr>"
          "[''name'' \<mapsto> PStr ''X'', ''zed_language'' \<mapsto> PStr ''x'',
            ''extensions'' \<mapsto> PList [PStr ''x'']]"]
  by (simp add: get_detection_tokens_def normalize_source_def)

subsection \<open>get\_detection\_tokens\<close>

text \<open>
  C4. \<open>get_detection_tokens\<close> returns: when neither \<open>suffixes\<close> nor \<open>filenames\<close> is present,
  the value of \<open>extensions\<close>, or the empty list when \<open>extensions\<close> is absent; when
  \<open>suffixes\<close> or \<open>filenames\<close> is present (an empty list counts) and each one present is a
  list of hashable items, such as strings, the items of \<open>suffixes\<close> followed by the items
  of \<open>filenames\<close>, duplicates removed keeping the first occurrence, whatever \<open>extensions\<close>
  holds.
\<close>

theorem get_detection_tokens_rule:
  "(info ''suffixes'' = None \<and> info ''filenames'' = None \<longrightarrow>
      get_detection_tokens info
        = Inr (case info ''extensions'' of None \<Rightarrow> PList [] | Some exts \<Rightarrow> exts))
   \<and> ((info ''suffixes'' \<noteq> None \<or> info ''filenames'' \<noteq> None)
        \<and> list_field (info ''suffixes'') = Some ss \<and> list_field (info ''filenames'') = Some fs
        \<and> list_all hashable (ss @ fs) \<longrightarrow>
      get_detection_tokens info = Inr (PList (first_occurrences (ss @ fs))))"
  by (auto simp: get_detection_tokens_def list_field_def extend_with_def fromkeys_first_occurrences
      split: option.splits pyval.splits)

theorem get_detection_tokens_rule_witness:
  "get_detection_tokens [''extensions'' \<mapsto> PList [PStr ''x'', PStr ''y'']]
     = Inr (PList [PStr ''x'', PStr ''y''])
   \<and> get_detection_tokens (Map.empty :: LanguageConfig) = Inr (PList [])
   \<and> get_detection_tokens
        [''suffixes'' \<mapsto> PList [PStr ''.a'', PStr ''.b'', PStr ''.a''],
         ''filenames'' \<mapsto> PList [PStr ''F'', PStr ''.b''],
         ''extensions'' \<mapsto> PList [PStr ''x'']]
     = Inr (PList [PStr ''.a'', PStr ''.b'', PStr ''F''])
   \<and> get_detection_tokens [''filenames'' \<mapsto> PList [], ''extensions'' \<mapsto> PList [PStr ''x'']]
     = Inr (PList [])"
  using
    get_detection_tokens_rule [of "[''extensions'' \<mapsto> PList [PStr ''x'', PStr ''y'']]" "[]" "[]"]
    get_detection_tokens_rule [of "Map.empty" "[]" "[]"]
    get_detection_tokens_rule
      [of "[''suffixes'' \<mapsto> PList [PStr ''.a'', PStr ''.b'', PStr ''.a''],
            ''filenames'' \<mapsto> PList [PStr ''F'', PStr ''.b''],
            ''extensions'' \<mapsto> PList [PStr ''x'']]"
          "[PStr ''.a'', PStr ''.b'', PStr ''.a'']" "[PStr ''F'', PStr ''.b'']"]
    get_detection_tokens_rule
      [of "[''filenames'' \<mapsto> PList [], ''extensions'' \<mapsto> PList [PStr ''x'']]" "[]" "[]"]
  by (simp add: list_field_def)

subsection \<open>update\_sources\<close>





lemma update_sources_keys:
  "update_sources config native_ids ext_ids = Inr (config', updated)
   \<Longrightarrow> map fst config' = map fst config"
  by (induction config arbitrary: config' updated) (auto split: sum.splits if_splits)



subsection \<open>backfill\_missing\_detection\_tokens\<close>









subsection \<open>split\_path\_suffixes\<close>

lemma split_loop_filter:
  "split_loop ps suffixes full_filenames other_patterns =
     (suffixes @ filter (\<lambda>v. CHR ''/'' \<notin> set v
                            \<and> ((CHR ''*'' \<notin> set v \<and> startswith v ''.'')
                                \<or> (startswith v ''*.'' \<and> count_list v CHR ''*'' = 1)))
                  (filter (\<lambda>v. v \<noteq> []) (map strip ps)),
      full_filenames @ filter (\<lambda>v. CHR ''/'' \<notin> set v \<and> CHR ''*'' \<notin> set v \<and> \<not> startswith v ''.'')
                  (filter (\<lambda>v. v \<noteq> []) (map strip ps)),
      other_patterns @ filter (\<lambda>v. CHR ''/'' \<in> set v
                            \<or> (CHR ''*'' \<in> set v \<and> \<not> (startswith v ''*.'' \<and> count_list v CHR ''*'' = 1)))
                  (filter (\<lambda>v. v \<noteq> []) (map strip ps)))"
proof (induction ps arbitrary: suffixes full_filenames other_patterns)
  case Nil
  then show ?case by simp
next
  case (Cons p ps)
  have star: "startswith v ''*.'' \<Longrightarrow> CHR ''*'' \<in> set v" for v
    by (cases v) (auto simp: startswith_def)
  show ?case
    by (auto simp: Cons.IH Let_def dest: star)
qed

text \<open>
  C8, as stated: \<open>suffixes\<close> holds exactly the patterns that start with \<open>"."\<close> or have
  one leading \<open>"*."\<close>, and \<open>full_filenames\<close> exactly the tokens without \<open>"."\<close>, \<open>"*"\<close> and
  \<open>"/"\<close>. Neither holds: \<open>".JUSTFILE.*"\<close> starts with \<open>"."\<close> and goes to
  \<open>other_patterns\<close>, because the test for \<open>"*"\<close> comes first, and \<open>"docker-compose.yml"\<close>
  contains \<open>"."\<close> and goes to \<open>full_filenames\<close>, because only a leading \<open>"."\<close> is
  tested.
\<close>

theorem split_path_suffixes_counterexample:
  "split_path_suffixes [''.JUSTFILE.*'', ''docker-compose.yml'']
     = ([], [''docker-compose.yml''], [''.JUSTFILE.*''])
   \<and> startswith ''.JUSTFILE.*'' ''.''
   \<and> CHR ''.'' \<in> set ''docker-compose.yml''"
  by (simp add: split_path_suffixes_def dedupe_strings_def strip_def isspace_def startswith_def)

text \<open>
  C8, amended: \<open>split_path_suffixes\<close> partitions the non-empty trimmed patterns into
  three deduplicated lists. \<open>suffixes\<close> holds exactly the patterns without \<open>"/"\<close> that
  either have no \<open>"*"\<close> and start with \<open>"."\<close>, or start with \<open>"*."\<close> and have exactly one
  \<open>"*"\<close>. \<open>full_filenames\<close> holds exactly the patterns without \<open>"/"\<close> and \<open>"*"\<close> that do
  not start with \<open>"."\<close> (a \<open>"."\<close> further on is allowed). \<open>other_patterns\<close> holds
  everything else: the patterns with \<open>"/"\<close>, and the patterns with \<open>"*"\<close> that are not of
  the single leading \<open>"*."\<close> form.
\<close>

theorem split_path_suffixes_rule:
  "case split_path_suffixes ps of
     (suffixes, full_filenames, other_patterns) \<Rightarrow>
       distinct suffixes \<and> distinct full_filenames \<and> distinct other_patterns
       \<and> set suffixes =
           {v. v \<in> strip ` set ps \<and> v \<noteq> [] \<and> CHR ''/'' \<notin> set v
               \<and> ((CHR ''*'' \<notin> set v \<and> startswith v ''.'')
                   \<or> (startswith v ''*.'' \<and> count_list v CHR ''*'' = 1))}
       \<and> set full_filenames =
           {v. v \<in> strip ` set ps \<and> v \<noteq> [] \<and> CHR ''/'' \<notin> set v \<and> CHR ''*'' \<notin> set v
               \<and> \<not> startswith v ''.''}
       \<and> set other_patterns =
           {v. v \<in> strip ` set ps \<and> v \<noteq> []
               \<and> (CHR ''/'' \<in> set v
                   \<or> (CHR ''*'' \<in> set v \<and> \<not> (startswith v ''*.'' \<and> count_list v CHR ''*'' = 1)))}
       \<and> set suffixes \<union> set full_filenames \<union> set other_patterns
           = {v. v \<in> strip ` set ps \<and> v \<noteq> []}
       \<and> set suffixes \<inter> set full_filenames = {}
       \<and> set suffixes \<inter> set other_patterns = {}
       \<and> set full_filenames \<inter> set other_patterns = {}"
proof -
  have star: "startswith v ''*.'' \<Longrightarrow> CHR ''*'' \<in> set v" for v
    by (cases v) (auto simp: startswith_def)
  show ?thesis
    unfolding split_path_suffixes_def split_loop_filter
    by (auto simp: dedupe_strings_distinct dedupe_strings_set dest: star)
qed

subsection \<open>save\_config\<close>









subsection \<open>save\_config and strings with a double quote\<close>

text \<open>
  C6. For every valid configuration, the text that \<open>save_config\<close> writes is read back by
  \<open>load_config\<close> to a configuration that \<open>save_config\<close> serializes to the same text. The
  code breaks this on a string that holds a double quote, because \<open>save_config\<close> writes
  every string between double quotes as it is, without escaping. The configuration below
  passes \<open>validate_config\<close>, and its name \<open>a"b\<close> is written as the line \<open>name = "a"b"\<close>:
  the string ends at the second quote and text follows it on the line, which no TOML
  reader accepts, so the file that was written cannot be loaded again.
\<close>

theorem save_config_unescaped_quote:
  \<open>validate_config
     [(''x'', [''name'' \<mapsto> PStr ''a"b'', ''zed_language'' \<mapsto> PStr ''x'',
               ''extensions'' \<mapsto> PList [PStr ''x'']])] = Inr ()
   \<and> save_config
     [(''x'', [''name'' \<mapsto> PStr ''a"b'', ''zed_language'' \<mapsto> PStr ''x'',
               ''extensions'' \<mapsto> PList [PStr ''x'']])]
   = Inr (join [CHR 0x0A]
       [''# Languages configuration for jinja-universal'',
        ''# source: native (Zed built-in), extension (Zed extension), extra (manual)'',
        [],
        ''[x]'',
        ''name = "a"b"'',
        ''zed_language = "x"'',
        ''extensions = ["x"]'',
        ''source = "extra"'',
        []])\<close>
  by (simp add: validate_config_def validate_config_entry_def REQUIRED_LANG_FIELDS_def
      detection_field_errors_def source_errors_def
      save_config_def save_lines_def header_lines_def entry_lines_def detection_lines_def
      DETECTION_FIELDS_def field_line_def source_line_def)

subsection \<open>extract\_extensions\<close>

text \<open>
  C9. \<open>extract_extensions\<close> applied to the list
  \<open>[".py", "*.jinja", "*abc", "a/b", "", "txt", ".py"]\<close> returns exactly
  \<open>["py", "jinja", "abc", "txt"]\<close>: the second \<open>".py"\<close> is dropped as a duplicate, the
  order of first occurrence is kept, \<open>"a/b"\<close> and the empty string are dropped, and the
  leading \<open>"."\<close>, \<open>"*"\<close> and \<open>"*."\<close> markers are cut.
\<close>

theorem extract_extensions_example:
  "extract_extensions [''.py'', ''*.jinja'', ''*abc'', ''a/b'', '''', ''txt'', ''.py'']
     = [''py'', ''jinja'', ''abc'', ''txt'']"
  by (simp add: extract_extensions_def dedupe_strings_def strip_markers_def startswith_def Let_def)

end
